theory Spec2Isabelle
  imports Main
begin

section \<open>Values decoded from JSON\<close>

text \<open>
  \<^verbatim>\<open>json.loads\<close> yields \<^verbatim>\<open>None\<close>, booleans, integers, strings, lists and dicts.
  A dict is kept as an association list in insertion order (lookup takes the first
  binding of a key). Floating-point numbers are left out: no field read by
  \<^verbatim>\<open>streamlit_app.py\<close> is specified to hold one.
\<close>

datatype json =
    JNull
  | JBool bool
  | JInt int
  | JStr string
  | JList "json list"
  | JObj "(string \<times> json) list"

text \<open>
  The exceptions the program can meet: a missing dict key, an operation on a value of
  the wrong type, an error raised by the HTTP transport, a body that is not JSON.
\<close>

datatype py_error =
    KeyError json
  | TypeError
  | RequestException string
  | JSONDecodeError

text \<open>
  Subscription \<^verbatim>\<open>obj[key]\<close> with a string key. Only a dict accepts it: a list, a
  string, a number, a boolean or \<^verbatim>\<open>None\<close> raises \<^verbatim>\<open>TypeError\<close>.
\<close>

fun getitem :: "json \<Rightarrow> string \<Rightarrow> py_error + json" where
  "getitem (JObj kvs) k =
     (case map_of kvs k of None \<Rightarrow> Inl (KeyError (JStr k)) | Some v \<Rightarrow> Inr v)"
| "getitem JNull k = Inl TypeError"
| "getitem (JBool b) k = Inl TypeError"
| "getitem (JInt i) k = Inl TypeError"
| "getitem (JStr s) k = Inl TypeError"
| "getitem (JList xs) k = Inl TypeError"

text \<open>
  Iteration \<^verbatim>\<open>for x in obj\<close>: a list yields its elements, a dict its keys, a string
  its characters as one-character strings; anything else is not iterable.
\<close>

fun py_iter :: "json \<Rightarrow> py_error + json list" where
  "py_iter (JList xs) = Inr xs"
| "py_iter (JObj kvs) = Inr (map (\<lambda>kv. JStr (fst kv)) kvs)"
| "py_iter (JStr s) = Inr (map (\<lambda>c. JStr [c]) s)"
| "py_iter JNull = Inl TypeError"
| "py_iter (JBool b) = Inl TypeError"
| "py_iter (JInt i) = Inl TypeError"

section \<open>Python dicts built by the program\<close>

text \<open>
  A dict built by a comprehension maps hashable keys to values and keeps the order in
  which keys were first inserted. Lists and dicts are unhashable. Key comparison is
  Python's \<^verbatim>\<open>==\<close>, under which \<^verbatim>\<open>True == 1\<close> and \<^verbatim>\<open>False == 0\<close>.
  Storing under a key that is already present replaces the value and keeps the old key
  and its position.
\<close>

type_synonym pydict = "(json \<times> json) list"

fun hashable :: "json \<Rightarrow> bool" where
  "hashable (JList xs) = False"
| "hashable (JObj kvs) = False"
| "hashable j = True"

fun key_norm :: "json \<Rightarrow> json" where
  "key_norm (JBool b) = JInt (if b then 1 else 0)"
| "key_norm j = j"

definition key_eq :: "json \<Rightarrow> json \<Rightarrow> bool" where
  "key_eq a b = (key_norm a = key_norm b)"

fun dict_setitem :: "pydict \<Rightarrow> json \<Rightarrow> json \<Rightarrow> pydict" where
  "dict_setitem [] k v = [(k, v)]"
| "dict_setitem ((k', v') # d) k v =
     (if key_eq k' k then (k', v) # d else (k', v') # dict_setitem d k v)"

fun dict_get :: "pydict \<Rightarrow> json \<Rightarrow> json option" where
  "dict_get [] k = None"
| "dict_get ((k', v') # d) k = (if key_eq k' k then Some v' else dict_get d k)"

text \<open>
  \<^verbatim>\<open>pd.Series(data)\<close> on a dict: the index is made of the dict's keys in insertion
  order and the values of the dict's values, both after the library's type inference.
  When every key is text and every value an integer, inference changes nothing and the
  series holds exactly the pairs of the dict, in order: \<open>Series\<close>. Otherwise the
  library may convert what it is given (a null beside integers turns the values into
  floating-point numbers, the null into not-a-number), and no value of the result is
  modelled: \<open>Inferred\<close> stands for the series the library builds from the dict.
\<close>

datatype series = Series pydict | Inferred pydict

fun text_int_item :: "json \<times> json \<Rightarrow> bool" where
  "text_int_item (JStr n, JInt v) = True"
| "text_int_item other = False"

definition pd_Series :: "pydict \<Rightarrow> series" where
  "pd_Series data = (if list_all text_int_item data then Series data else Inferred data)"

section \<open>The Pokemon dataclass\<close>

text \<open>
  The dataclass does not check its annotations, so each field holds whatever value the
  payload had at that key.
\<close>

record Pokemon =
  name :: json
  base_experience :: json
  sprite_front_default :: json
  sprite_back_default :: json
  stats :: json

text \<open>
  \<^verbatim>\<open>Pokemon.from_dict\<close>: the keyword arguments are evaluated in the order written,
  and the first failing subscription raises.
\<close>

definition from_dict :: "json \<Rightarrow> py_error + Pokemon" where
  "from_dict payload =
     (case getitem payload ''name'' of Inl e \<Rightarrow> Inl e | Inr n \<Rightarrow>
     (case getitem payload ''base_experience'' of Inl e \<Rightarrow> Inl e | Inr be \<Rightarrow>
     (case getitem payload ''sprites'' of Inl e \<Rightarrow> Inl e | Inr sf \<Rightarrow>
     (case getitem sf ''front_default'' of Inl e \<Rightarrow> Inl e | Inr fd \<Rightarrow>
     (case getitem payload ''sprites'' of Inl e \<Rightarrow> Inl e | Inr sb \<Rightarrow>
     (case getitem sb ''back_default'' of Inl e \<Rightarrow> Inl e | Inr bd \<Rightarrow>
     (case getitem payload ''stats'' of Inl e \<Rightarrow> Inl e | Inr st \<Rightarrow>
      Inr \<lparr>name = n, base_experience = be, sprite_front_default = fd,
           sprite_back_default = bd, stats = st\<rparr>)))))))"

section \<open>The HTTP transport and the JSON decoder\<close>

text \<open>
  \<^verbatim>\<open>requests.get\<close> and \<^verbatim>\<open>json.loads\<close> are library code, taken as parameters.
  The transport sees the argument it is called with (whatever value the caller passes,
  a string or not) and the calls made before, so its answers may change over time; it
  answers with a response or raises. Of a response the program reads the body as
  bytes (\<^verbatim>\<open>content\<close>) and as text (\<^verbatim>\<open>text\<close>).
  The log of calls to \<^verbatim>\<open>requests.get\<close>, oldest first, is the only effect the
  program has on the world, and is passed through every function that can perform one.
\<close>

record response =
  content :: string
  response_text :: string

record env =
  requests_get :: "json list \<Rightarrow> json \<Rightarrow> py_error + response"
  json_loads :: "string \<Rightarrow> py_error + json"

text \<open>\<^verbatim>\<open>io.BytesIO(initial_bytes)\<close>: a buffer holding the bytes, positioned at the start.\<close>

record bytes_io =
  buffer :: string
  position :: nat

definition BytesIO :: "string \<Rightarrow> bytes_io" where
  "BytesIO initial_bytes = \<lparr>buffer = initial_bytes, position = 0\<rparr>"

section \<open>The accessors of Pokemon\<close>

text \<open>
  An accessor takes the instance and the log, and returns its result (or the exception
  raised), the instance as it leaves it, and the log as it leaves it.

  \<^verbatim>\<open>front_image\<close> and \<^verbatim>\<open>back_image\<close> pass the stored sprite field to
  \<^verbatim>\<open>requests.get\<close> as it is, with no test of the field before the call, and wrap the
  body of the response.
\<close>

definition front_image ::
  "env \<Rightarrow> Pokemon \<Rightarrow> json list \<Rightarrow> (py_error + bytes_io) \<times> Pokemon \<times> json list" where
  "front_image environ self log =
     (case requests_get environ log (sprite_front_default self) of
        Inl e \<Rightarrow> (Inl e, self, log @ [sprite_front_default self])
      | Inr picture_resp \<Rightarrow>
          (Inr (BytesIO (content picture_resp)), self, log @ [sprite_front_default self]))"

definition back_image ::
  "env \<Rightarrow> Pokemon \<Rightarrow> json list \<Rightarrow> (py_error + bytes_io) \<times> Pokemon \<times> json list" where
  "back_image environ self log =
     (case requests_get environ log (sprite_back_default self) of
        Inl e \<Rightarrow> (Inl e, self, log @ [sprite_back_default self])
      | Inr picture_resp \<Rightarrow>
          (Inr (BytesIO (content picture_resp)), self, log @ [sprite_back_default self]))"

text \<open>
  \<^verbatim>\<open>Pokemon.stats_series\<close>. The comprehension
  \<^verbatim>\<open>{stat["stat"]["name"]: stat["base_stat"] for stat in self.stats}\<close>
  evaluates, for each element in turn, the key expression, then the value expression,
  then stores the pair; the first exception ends it.
\<close>

definition stat_key :: "json \<Rightarrow> py_error + json" where
  "stat_key stat =
     (case getitem stat ''stat'' of Inl e \<Rightarrow> Inl e | Inr s \<Rightarrow> getitem s ''name'')"

definition stat_value :: "json \<Rightarrow> py_error + json" where
  "stat_value stat = getitem stat ''base_stat''"

fun stats_comprehension :: "json list \<Rightarrow> pydict \<Rightarrow> py_error + pydict" where
  "stats_comprehension [] d = Inr d"
| "stats_comprehension (stat # rest) d =
     (case stat_key stat of Inl e \<Rightarrow> Inl e | Inr k \<Rightarrow>
     (case stat_value stat of Inl e \<Rightarrow> Inl e | Inr v \<Rightarrow>
      if hashable k then stats_comprehension rest (dict_setitem d k v)
      else Inl TypeError))"

definition stats_series ::
  "Pokemon \<Rightarrow> json list \<Rightarrow> (py_error + series) \<times> Pokemon \<times> json list" where
  "stats_series self log =
     (case py_iter (stats self) of Inl e \<Rightarrow> (Inl e, self, log) | Inr items \<Rightarrow>
     (case stats_comprehension items [] of Inl e \<Rightarrow> (Inl e, self, log)
      | Inr stats_dict \<Rightarrow> (Inr (pd_Series stats_dict), self, log)))"

text \<open>
  A caller reading accessors one after the other, going on after an exception: the
  instance and the log after the calls.
\<close>

datatype accessor = FrontImage | BackImage | StatsSeries

fun access :: "env \<Rightarrow> accessor \<Rightarrow> Pokemon \<times> json list \<Rightarrow> Pokemon \<times> json list" where
  "access environ FrontImage (self, log) = snd (front_image environ self log)"
| "access environ BackImage (self, log) = snd (back_image environ self log)"
| "access environ StatsSeries (self, log) = snd (stats_series self log)"

fun access_all :: "env \<Rightarrow> accessor list \<Rightarrow> Pokemon \<times> json list \<Rightarrow> Pokemon \<times> json list" where
  "access_all environ [] w = w"
| "access_all environ (a # rest) w = access_all environ rest (access environ a w)"

section \<open>The loaders\<close>

text \<open>
  \<^verbatim>\<open>load_pokemon\<close>: the name is formatted into the URL, the URL is fetched, and
  the text of the response is decoded.
\<close>

definition load_pokemon ::
  "env \<Rightarrow> string \<Rightarrow> json list \<Rightarrow> (py_error + json) \<times> json list" where
  "load_pokemon environ pokemon_name log =
     (let poke_url = JStr (''https://pokeapi.co/api/v2/pokemon/'' @ pokemon_name @ ''/'')
      in case requests_get environ log poke_url of
           Inl e \<Rightarrow> (Inl e, log @ [poke_url])
         | Inr resp \<Rightarrow> (json_loads environ (response_text resp), log @ [poke_url]))"

text \<open>
  \<^verbatim>\<open>load_all_pokemons\<close>, the function under the \<^verbatim>\<open>st.cache\<close> decorator: what runs
  when the framework's cache has no value for it. The list comprehension reads the
  name of each element in turn; the first exception ends it.
\<close>

fun names_comprehension :: "json list \<Rightarrow> py_error + json list" where
  "names_comprehension [] = Inr []"
| "names_comprehension (pokemon # rest) =
     (case getitem pokemon ''name'' of Inl e \<Rightarrow> Inl e | Inr n \<Rightarrow>
     (case names_comprehension rest of Inl e \<Rightarrow> Inl e | Inr ns \<Rightarrow> Inr (n # ns)))"

definition load_all_pokemons ::
  "env \<Rightarrow> json list \<Rightarrow> (py_error + json list) \<times> json list" where
  "load_all_pokemons environ log =
     (let url = JStr ''https://pokeapi.co/api/v2/pokemon?limit=100000&offset=0''
      in case requests_get environ log url of
           Inl e \<Rightarrow> (Inl e, log @ [url])
         | Inr resp \<Rightarrow>
          (case json_loads environ (response_text resp) of
             Inl e \<Rightarrow> (Inl e, log @ [url])
           | Inr resp_to_json \<Rightarrow>
            (case getitem resp_to_json ''results'' of
               Inl e \<Rightarrow> (Inl e, log @ [url])
             | Inr results \<Rightarrow>
              (case py_iter results of
                 Inl e \<Rightarrow> (Inl e, log @ [url])
               | Inr items \<Rightarrow> (names_comprehension items, log @ [url])))))"

section \<open>Vocabulary of the properties\<close>

text \<open>
  The keys of a dict as Python compares them, in order; the effect of storing a list of
  pairs one after the other; and the value of the last pair, in list order, whose key
  equals a given key.
\<close>

fun norm_keys :: "pydict \<Rightarrow> json list" where
  "norm_keys [] = []"
| "norm_keys ((k, v) # d) = key_norm k # norm_keys d"

fun store_all :: "(json \<times> json) list \<Rightarrow> pydict \<Rightarrow> pydict" where
  "store_all [] d = d"
| "store_all ((k, v) # kvs) d = store_all kvs (dict_setitem d k v)"

fun last_value :: "(json \<times> json) list \<Rightarrow> json \<Rightarrow> json option" where
  "last_value [] k = None"
| "last_value ((k', v') # kvs) k =
     (case last_value kvs k of Some v \<Rightarrow> Some v
      | None \<Rightarrow> if key_eq k' k then Some v' else None)"

text \<open>
  The shape of an entity record on the wire: a mapping with a text name, an integer
  base experience, a mapping of sprites whose front and back entries are text or null,
  and a sequence of statistics, each a mapping with a text name under stat and an
  integer base value. Other keys may be present.
\<close>

fun sprite_url :: "json option \<Rightarrow> bool" where
  "sprite_url (Some (JStr u)) = True"
| "sprite_url (Some JNull) = True"
| "sprite_url other = False"

definition wf_stat :: "json \<Rightarrow> bool" where
  "wf_stat stat =
     (case stat_key stat of
        Inr (JStr n) \<Rightarrow> (case stat_value stat of Inr (JInt v) \<Rightarrow> True | _ \<Rightarrow> False)
      | _ \<Rightarrow> False)"

definition well_formed :: "json \<Rightarrow> bool" where
  "well_formed payload =
     (case payload of
        JObj kvs \<Rightarrow>
          (case map_of kvs ''name'' of Some (JStr n) \<Rightarrow> True | _ \<Rightarrow> False) \<and>
          (case map_of kvs ''base_experience'' of Some (JInt x) \<Rightarrow> True | _ \<Rightarrow> False) \<and>
          (case map_of kvs ''sprites'' of
             Some (JObj sp) \<Rightarrow>
               sprite_url (map_of sp ''front_default'') \<and> sprite_url (map_of sp ''back_default'')
           | _ \<Rightarrow> False) \<and>
          (case map_of kvs ''stats'' of Some (JList es) \<Rightarrow> list_all wf_stat es | _ \<Rightarrow> False)
      | _ \<Rightarrow> False)"

text \<open>
  A mapping lacks one of the keys read at construction when name, base_experience,
  sprites or stats is absent from it, or when front_default or back_default cannot be
  found under sprites. The sprites entry, when there is one, may or may not be a
  mapping itself.
\<close>

definition lacks_key :: "json \<Rightarrow> bool" where
  "lacks_key payload =
     (case payload of
        JObj kvs \<Rightarrow>
          map_of kvs ''name'' = None \<or> map_of kvs ''base_experience'' = None \<or>
          map_of kvs ''stats'' = None \<or>
          (case map_of kvs ''sprites'' of
             None \<Rightarrow> True
           | Some (JObj sp) \<Rightarrow>
               map_of sp ''front_default'' = None \<or> map_of sp ''back_default'' = None
           | Some other \<Rightarrow> True)
      | _ \<Rightarrow> False)"

definition sprites_mapping_or_absent :: "json \<Rightarrow> bool" where
  "sprites_mapping_or_absent payload =
     (case payload of
        JObj kvs \<Rightarrow>
          (case map_of kvs ''sprites'' of
             None \<Rightarrow> True | Some (JObj sp) \<Rightarrow> True | Some other \<Rightarrow> False)
      | _ \<Rightarrow> False)"

section \<open>Concrete inputs\<close>

definition hp_stat :: "int \<Rightarrow> json" where
  "hp_stat v = JObj [(''stat'', JObj [(''name'', JStr ''hp'')]), (''base_stat'', JInt v)]"

definition attack_stat :: "int \<Rightarrow> json" where
  "attack_stat v = JObj [(''stat'', JObj [(''name'', JStr ''attack'')]), (''base_stat'', JInt v)]"

definition entity_record :: "string \<Rightarrow> json \<Rightarrow> json \<Rightarrow> json list \<Rightarrow> json" where
  "entity_record n front back sts = JObj
     [(''name'', JStr n),
      (''base_experience'', JInt 64),
      (''sprites'', JObj [(''front_default'', front), (''back_default'', back)]),
      (''stats'', JList sts)]"

definition bulbasaur_record :: json where
  "bulbasaur_record =
     entity_record ''bulbasaur'' (JStr ''url-f'') (JStr ''url-b'') [hp_stat 45, attack_stat 49]"

definition bulbasaur :: Pokemon where
  "bulbasaur = \<lparr>name = JStr ''bulbasaur'', base_experience = JInt 64,
     sprite_front_default = JStr ''url-f'', sprite_back_default = JStr ''url-b'',
     stats = JList [hp_stat 45, attack_stat 49]\<rparr>"

text \<open>A record whose two statistics carry the same name, and the instance built from it.\<close>

definition twice_hp_record :: json where
  "twice_hp_record =
     entity_record ''bulbasaur'' (JStr ''url-f'') (JStr ''url-b'') [hp_stat 45, hp_stat 49]"

definition twice_hp :: Pokemon where
  "twice_hp = \<lparr>name = JStr ''bulbasaur'', base_experience = JInt 64,
     sprite_front_default = JStr ''url-f'', sprite_back_default = JStr ''url-b'',
     stats = JList [hp_stat 45, hp_stat 49]\<rparr>"

text \<open>A record whose sprites are null, and the instance built from it.\<close>

definition no_sprites_record :: json where
  "no_sprites_record = entity_record ''bulbasaur'' JNull JNull [hp_stat 45, attack_stat 49]"

definition no_sprites :: Pokemon where
  "no_sprites = \<lparr>name = JStr ''bulbasaur'', base_experience = JInt 64,
     sprite_front_default = JNull, sprite_back_default = JNull,
     stats = JList [hp_stat 45, attack_stat 49]\<rparr>"

text \<open>A mapping without stats whose sprites entry is null.\<close>

definition null_sprites_entry_record :: json where
  "null_sprites_entry_record = JObj
     [(''name'', JStr ''bulbasaur''), (''base_experience'', JInt 64), (''sprites'', JNull)]"

text \<open>A mapping without stats whose sprites entry is a mapping.\<close>

definition no_stats_record :: json where
  "no_stats_record = JObj
     [(''name'', JStr ''bulbasaur''), (''base_experience'', JInt 64),
      (''sprites'', JObj [(''front_default'', JStr ''url-f''), (''back_default'', JStr ''url-b'')])]"

text \<open>
  A test double for the service. It answers the listing URL, the URL of bulbasaur and
  the two sprite URLs, answers the URL of an unknown name with a body that is not
  JSON, and raises for any other text; for an argument that is not text it raises as
  \<^verbatim>\<open>requests\<close> does for a URL without a scheme (\<^verbatim>\<open>MissingSchema\<close>, a
  \<^verbatim>\<open>RequestException\<close>). The decoder knows the two bodies.
\<close>

definition listing :: json where
  "listing = JObj
     [(''count'', JInt 2),
      (''results'', JList [JObj [(''name'', JStr ''bulbasaur''), (''url'', JStr ''u1'')],
                           JObj [(''name'', JStr ''ivysaur''), (''url'', JStr ''u2'')]])]"

definition mock_get :: "json list \<Rightarrow> json \<Rightarrow> py_error + response" where
  "mock_get log url =
     (case url of
        JStr u \<Rightarrow>
          if u = ''https://pokeapi.co/api/v2/pokemon?limit=100000&offset=0''
            then Inr \<lparr>content = ''listing'', response_text = ''listing''\<rparr>
          else if u = ''https://pokeapi.co/api/v2/pokemon/bulbasaur/''
            then Inr \<lparr>content = ''bulbasaur'', response_text = ''bulbasaur''\<rparr>
          else if u = ''https://pokeapi.co/api/v2/pokemon/missingno/''
            then Inr \<lparr>content = ''Not Found'', response_text = ''Not Found''\<rparr>
          else if u = ''url-f'' then Inr \<lparr>content = ''front'', response_text = ''front''\<rparr>
          else if u = ''url-b'' then Inr \<lparr>content = ''back'', response_text = ''back''\<rparr>
          else Inl (RequestException ''ConnectionError'')
      | _ \<Rightarrow> Inl (RequestException ''MissingSchema''))"

definition mock_loads :: "string \<Rightarrow> py_error + json" where
  "mock_loads s =
     (if s = ''listing'' then Inr listing
      else if s = ''bulbasaur'' then Inr bulbasaur_record
      else Inl JSONDecodeError)"

definition mock :: env where
  "mock = \<lparr>requests_get = mock_get, json_loads = mock_loads\<rparr>"

section \<open>Theorems\<close>

text \<open>
  C4. On the record for bulbasaur with sprites url-f and url-b and the two statistics
  hp = 45 and attack = 49, construction succeeds, the stored name is bulbasaur, and
  the statistics view is the mapping hp \<mapsto> 45, attack \<mapsto> 49 with hp first.
\<close>

theorem bulbasaur_example:
  "\<exists>p. from_dict bulbasaur_record = Inr p
     \<and> name p = JStr ''bulbasaur''
     \<and> fst (stats_series p log)
         = Inr (Series [(JStr ''hp'', JInt 45), (JStr ''attack'', JInt 49)])"
  by (simp add: bulbasaur_record_def entity_record_def hp_stat_def attack_stat_def
      from_dict_def stats_series_def stat_key_def stat_value_def pd_Series_def key_eq_def)

subsection \<open>Dicts: storing and reading back\<close>

lemma norm_keys_append: "norm_keys (d @ e) = norm_keys d @ norm_keys e"
  by (induction d rule: norm_keys.induct) auto

lemma length_norm_keys: "length (norm_keys d) = length d"
  by (induction d rule: norm_keys.induct) auto

lemma norm_keys_zip: "length ks = length vs \<Longrightarrow> norm_keys (zip ks vs) = map key_norm ks"
  by (induction ks vs rule: list_induct2) auto

lemma dict_get_setitem:
  "dict_get (dict_setitem d k v) k' = (if key_eq k k' then Some v else dict_get d k')"
  by (induction d) (auto simp: key_eq_def)

lemma keys_setitem:
  "norm_keys (dict_setitem d k v) =
     (if key_norm k \<in> set (norm_keys d) then norm_keys d else norm_keys d @ [key_norm k])"
  by (induction d rule: norm_keys.induct) (auto simp: key_eq_def)

lemma setitem_fresh:
  "key_norm k \<notin> set (norm_keys d) \<Longrightarrow> dict_setitem d k v = d @ [(k, v)]"
  by (induction d rule: norm_keys.induct) (auto simp: key_eq_def)

lemma keys_store_all:
  "set (norm_keys (store_all kvs d)) = set (norm_keys d) \<union> set (norm_keys kvs)"
  by (induction kvs d rule: store_all.induct) (auto simp: keys_setitem)

lemma distinct_store_all:
  "distinct (norm_keys d) \<Longrightarrow> distinct (norm_keys (store_all kvs d))"
  by (induction kvs d rule: store_all.induct) (auto simp: keys_setitem)

lemma dict_get_store_all:
  "dict_get (store_all kvs d) k =
     (case last_value kvs k of Some v \<Rightarrow> Some v | None \<Rightarrow> dict_get d k)"
  by (induction kvs d rule: store_all.induct)
     (auto simp: dict_get_setitem split: option.splits)

lemma store_all_fresh:
  "distinct (norm_keys (d @ kvs)) \<Longrightarrow> store_all kvs d = d @ kvs"
proof (induction kvs d rule: store_all.induct)
  case (1 d)
  then show ?case by simp
next
  case (2 k v kvs d)
  then have "dict_setitem d k v = d @ [(k, v)]"
    by (intro setitem_fresh) (auto simp: norm_keys_append)
  with 2 show ?case by (simp add: norm_keys_append)
qed

lemma length_store_all:
  "distinct (norm_keys d) \<Longrightarrow>
   length (store_all kvs d) = card (set (norm_keys d) \<union> set (norm_keys kvs))"
  using distinct_store_all[of d kvs] keys_store_all[of kvs d]
    distinct_card[of "norm_keys (store_all kvs d)"]
  by (simp add: length_norm_keys)

lemma text_int_item_iff: "text_int_item (k, v) \<longleftrightarrow> (\<exists>n i. k = JStr n \<and> v = JInt i)"
  by (cases k; cases v) simp_all

lemma setitem_text_int:
  "list_all text_int_item d \<Longrightarrow> text_int_item (k, v) \<Longrightarrow>
   list_all text_int_item (dict_setitem d k v)"
  by (induction d) (auto simp: text_int_item_iff)

lemma store_all_text_int:
  "list_all text_int_item d \<Longrightarrow> list_all text_int_item kvs \<Longrightarrow>
   list_all text_int_item (store_all kvs d)"
  by (induction kvs d rule: store_all.induct) (auto simp: setitem_text_int)

lemma zip_text_int:
  "length ns = length vs \<Longrightarrow> list_all text_int_item (zip (map JStr ns) (map JInt vs))"
  by (induction ns vs rule: list_induct2) auto

lemma norm_keys_text_int: "list_all text_int_item d \<Longrightarrow> norm_keys d = map fst d"
  by (induction d rule: norm_keys.induct) (auto simp: text_int_item_iff)

subsection \<open>The statistics comprehension\<close>

text \<open>
  When every element yields a key and a value and every key is hashable, the
  comprehension stores the pairs one after the other into the empty dict.
\<close>

lemma comprehension_store_all:
  "map stat_key es = map Inr ks \<Longrightarrow> map stat_value es = map Inr vs \<Longrightarrow> list_all hashable ks
   \<Longrightarrow> stats_comprehension es d = Inr (store_all (zip ks vs) d)"
proof (induction es arbitrary: ks vs d)
  case Nil
  then show ?case by simp
next
  case (Cons e es)
  then obtain k ks' v vs' where ks: "ks = k # ks'" and vs: "vs = v # vs'"
    by (cases ks; cases vs) auto
  with Cons show ?case by simp
qed

lemma stats_series_store_all:
  assumes "stats self = JList es" and "map stat_key es = map Inr ks"
    and "map stat_value es = map Inr vs" and "list_all hashable ks"
  shows "stats_series self log = (Inr (pd_Series (store_all (zip ks vs) [])), self, log)"
  using comprehension_store_all[OF assms(2-4), of "[]"] assms(1)
  by (simp add: stats_series_def)

text \<open>With text names and integer values the series holds the stored pairs exactly.\<close>

lemma stats_series_text_int:
  assumes "stats self = JList es" and "map stat_key es = map Inr (map JStr ns)"
    and "map stat_value es = map Inr (map JInt vs)"
  shows "stats_series self log =
     (Inr (Series (store_all (zip (map JStr ns) (map JInt vs)) [])), self, log)"
proof -
  have len: "length ns = length vs" using assms(2,3) by (metis length_map)
  have h: "list_all hashable (map JStr ns)" by (simp add: list_all_iff)
  have "list_all text_int_item (store_all (zip (map JStr ns) (map JInt vs)) [])"
    using len by (simp add: store_all_text_int zip_text_int)
  then show ?thesis
    using stats_series_store_all[OF assms h, of log] by (simp add: pd_Series_def)
qed

text \<open>
  C9. When the stored statistics are a sequence whose elements all yield a text name
  and an integer value, the statistics view has one entry per name (no two of its keys
  are equal), its names are those of the sequence, the value under a name is that of
  the last element of the sequence carrying this name, and when two elements carry the
  same name the view has fewer entries than the sequence has elements.
\<close>

theorem stats_series_duplicate_names:
  assumes "stats self = JList es"
    and "map stat_key es = map Inr (map JStr ns)"
    and "map stat_value es = map Inr (map JInt vs)"
  shows "\<exists>d. fst (stats_series self log) = Inr (Series d)
           \<and> distinct (map fst d)
           \<and> set (map fst d) = set (map JStr ns)
           \<and> (\<forall>k. dict_get d k = last_value (zip (map JStr ns) (map JInt vs)) k)
           \<and> length d = card (set ns)
           \<and> (\<not> distinct ns \<longrightarrow> length d < length es)"
proof -
  let ?kvs = "zip (map JStr ns) (map JInt vs)"
  let ?d = "store_all ?kvs []"
  have len: "length ns = length vs" "length ns = length es"
    using assms(2,3) by (metis length_map)+
  have kn: "map key_norm (map JStr ns) = map JStr ns" by simp
  have nk: "norm_keys ?kvs = map JStr ns"
    using len kn by (simp add: norm_keys_zip del: map_map)
  have ti: "list_all text_int_item ?d"
    using len by (simp add: store_all_text_int zip_text_int)
  have nd: "norm_keys ?d = map fst ?d" using ti by (rule norm_keys_text_int)
  have inj: "inj_on JStr (set ns)" by (simp add: inj_on_def)
  have 1: "fst (stats_series self log) = Inr (Series ?d)"
    using stats_series_text_int[OF assms] by simp
  have 2: "distinct (map fst ?d)"
    using distinct_store_all[of "[]" ?kvs] nd by simp
  have 3: "set (map fst ?d) = set (map JStr ns)"
    using keys_store_all[of ?kvs "[]"] nd nk by simp
  have 4: "\<forall>k. dict_get ?d k = last_value ?kvs k"
    by (simp add: dict_get_store_all split: option.splits)
  have "length ?d = card (set (map JStr ns))"
    using length_store_all[of "[]" ?kvs] nk by simp
  then have 5: "length ?d = card (set ns)"
    using card_image[OF inj] by simp
  have 6: "\<not> distinct ns \<longrightarrow> length ?d < length es"
  proof
    assume "\<not> distinct ns"
    then have "card (set ns) \<noteq> length ns" using card_distinct by blast
    moreover have "card (set ns) \<le> length ns" by (rule card_length)
    ultimately show "length ?d < length es" using 5 len by simp
  qed
  from 1 2 3 4 5 6 show ?thesis by blast
qed

theorem stats_series_duplicate_names_witness:
  "stats twice_hp = JList [hp_stat 45, hp_stat 49]
   \<and> map stat_key [hp_stat 45, hp_stat 49] = map Inr (map JStr [''hp'', ''hp''])
   \<and> map stat_value [hp_stat 45, hp_stat 49] = map Inr (map JInt [45, 49])
   \<and> \<not> distinct [''hp'', ''hp'']
   \<and> (\<exists>d. fst (stats_series twice_hp []) = Inr (Series d)
         \<and> dict_get d (JStr ''hp'') = Some (JInt 49)
         \<and> length d < length [hp_stat 45, hp_stat 49])"
proof -
  have a: "stats twice_hp = JList [hp_stat 45, hp_stat 49]" by (simp add: twice_hp_def)
  have b: "map stat_key [hp_stat 45, hp_stat 49] = map Inr (map JStr [''hp'', ''hp''])"
    by (simp add: hp_stat_def stat_key_def)
  have c: "map stat_value [hp_stat 45, hp_stat 49] = map Inr (map JInt [45, 49])"
    by (simp add: hp_stat_def stat_value_def)
  have d: "\<not> distinct [''hp'', ''hp'']" by simp
  from stats_series_duplicate_names[OF a b c, of "[]"] a b c d
  show ?thesis by (auto simp: key_eq_def)
qed

subsection \<open>Construction\<close>

lemma from_dict_present:
  assumes "map_of kvs ''name'' = Some n" and "map_of kvs ''base_experience'' = Some be"
    and "map_of kvs ''sprites'' = Some (JObj sp)"
    and "map_of sp ''front_default'' = Some fd" and "map_of sp ''back_default'' = Some bd"
    and "map_of kvs ''stats'' = Some st"
  shows "from_dict (JObj kvs) =
     Inr \<lparr>name = n, base_experience = be, sprite_front_default = fd,
          sprite_back_default = bd, stats = st\<rparr>"
  using assms by (simp add: from_dict_def)

lemma wf_stat_key_value:
  "wf_stat e \<Longrightarrow> \<exists>n v. stat_key e = Inr (JStr n) \<and> stat_value e = Inr (JInt v)"
  by (auto simp: wf_stat_def split: sum.splits json.splits)

lemma wf_stats_keys_values:
  "list_all wf_stat es \<Longrightarrow>
   \<exists>ns vs. map stat_key es = map Inr (map JStr ns)
      \<and> map stat_value es = map Inr (map JInt vs)"
proof (induction es)
  case Nil
  then show ?case by simp
next
  case (Cons e es)
  then obtain ns vs where
    ih: "map stat_key es = map Inr (map JStr ns)" "map stat_value es = map Inr (map JInt vs)"
    by auto
  from Cons.prems have "wf_stat e" by simp
  from wf_stat_key_value[OF this]
  obtain n v where "stat_key e = Inr (JStr n)" "stat_value e = Inr (JInt v)" by blast
  with ih have "map stat_key (e # es) = map Inr (map JStr (n # ns))"
    "map stat_value (e # es) = map Inr (map JInt (v # vs))" by simp_all
  then show ?case by blast
qed

lemma well_formed_fields:
  assumes "well_formed payload"
  obtains kvs n be sp fd bd es where "payload = JObj kvs"
    and "map_of kvs ''name'' = Some n" and "map_of kvs ''base_experience'' = Some be"
    and "map_of kvs ''sprites'' = Some (JObj sp)"
    and "map_of sp ''front_default'' = Some fd" and "map_of sp ''back_default'' = Some bd"
    and "map_of kvs ''stats'' = Some (JList es)" and "list_all wf_stat es"
proof -
  from assms obtain kvs where p: "payload = JObj kvs"
    by (cases payload) (auto simp: well_formed_def)
  from assms p obtain n where n: "map_of kvs ''name'' = Some n"
    by (auto simp: well_formed_def split: option.splits)
  from assms p obtain be where be: "map_of kvs ''base_experience'' = Some be"
    by (auto simp: well_formed_def split: option.splits)
  from assms p obtain sp where sp: "map_of kvs ''sprites'' = Some (JObj sp)"
    and su: "sprite_url (map_of sp ''front_default'')" "sprite_url (map_of sp ''back_default'')"
    by (auto simp: well_formed_def split: option.splits json.splits)
  from su(1) obtain fd where fd: "map_of sp ''front_default'' = Some fd"
    by (cases "map_of sp ''front_default''") auto
  from su(2) obtain bd where bd: "map_of sp ''back_default'' = Some bd"
    by (cases "map_of sp ''back_default''") auto
  from assms p obtain es where es: "map_of kvs ''stats'' = Some (JList es)" "list_all wf_stat es"
    by (auto simp: well_formed_def split: option.splits json.splits)
  from that[OF p n be sp fd bd es] show thesis .
qed

text \<open>
  C1 (amended). For every well-formed entity record whose statistics carry pairwise
  distinct names, construction succeeds and the statistics view has exactly one entry
  per element of the record's stats sequence, the entry at each position having the
  name (stat.name) and the value (base_stat) of the element at that position.
\<close>

theorem stats_series_entry_per_stat:
  assumes "well_formed payload" and "getitem payload ''stats'' = Inr (JList es)"
    and "distinct (map stat_key es)"
  shows "\<exists>p d. from_dict payload = Inr p \<and> stats p = JList es
           \<and> fst (stats_series p log) = Inr (Series d)
           \<and> length d = length es
           \<and> map (\<lambda>kv. Inr (fst kv)) d = map stat_key es
           \<and> map (\<lambda>kv. Inr (snd kv)) d = map stat_value es"
proof -
  from assms(1) obtain kvs n be sp fd bd es' where f: "payload = JObj kvs"
    "map_of kvs ''name'' = Some n" "map_of kvs ''base_experience'' = Some be"
    "map_of kvs ''sprites'' = Some (JObj sp)"
    "map_of sp ''front_default'' = Some fd" "map_of sp ''back_default'' = Some bd"
    "map_of kvs ''stats'' = Some (JList es')" "list_all wf_stat es'"
    by (rule well_formed_fields)
  from assms(2) f have es: "es' = es" by simp
  let ?p = "\<lparr>name = n, base_experience = be, sprite_front_default = fd,
          sprite_back_default = bd, stats = JList es\<rparr>"
  have p: "from_dict payload = Inr ?p"
    using from_dict_present[OF f(2-7)] f(1) es by simp
  from f(8) es obtain ns ivs where kv: "map stat_key es = map Inr (map JStr ns)"
    "map stat_value es = map Inr (map JInt ivs)"
    using wf_stats_keys_values by blast
  define vs where "vs = map JInt ivs"
  have kv2: "map stat_value es = map Inr vs" using kv(2) by (simp add: vs_def)
  have len: "length ns = length es" "length vs = length es"
    using kv(1) kv2 by (metis length_map)+
  have "distinct (map (Inr :: json \<Rightarrow> py_error + json) (map JStr ns))"
    using assms(3) kv by simp
  then have dn: "distinct (map JStr ns)" by (simp add: distinct_map inj_on_def)
  have kn: "map key_norm (map JStr ns) = map JStr ns" by simp
  have "distinct (norm_keys ([] @ zip (map JStr ns) vs))"
    using dn len kn by (simp add: norm_keys_zip del: map_map)
  then have st: "store_all (zip (map JStr ns) vs) [] = zip (map JStr ns) vs"
    using store_all_fresh[of "[]"] by simp
  have s: "stats_series ?p log = (Inr (Series (zip (map JStr ns) vs)), ?p, log)"
    using stats_series_text_int[of ?p es ns ivs log] kv st by (simp add: vs_def)
  have "map (\<lambda>kv. Inr (fst kv)) (zip (map JStr ns) vs) = map stat_key es"
    using kv(1) len by (simp add: map_fst_zip flip: map_map [of Inr fst, unfolded comp_def])
  moreover have "map (\<lambda>kv. Inr (snd kv)) (zip (map JStr ns) vs) = map stat_value es"
    using kv2 len by (simp add: map_snd_zip flip: map_map [of Inr snd, unfolded comp_def])
  ultimately show ?thesis using p s len by auto
qed

theorem stats_series_entry_per_stat_witness:
  "well_formed bulbasaur_record
   \<and> getitem bulbasaur_record ''stats'' = Inr (JList [hp_stat 45, attack_stat 49])
   \<and> distinct (map stat_key [hp_stat 45, attack_stat 49])
   \<and> (\<exists>p d. from_dict bulbasaur_record = Inr p
          \<and> stats p = JList [hp_stat 45, attack_stat 49]
          \<and> fst (stats_series p []) = Inr (Series d)
          \<and> length d = length [hp_stat 45, attack_stat 49]
          \<and> map (\<lambda>kv. Inr (fst kv)) d = map stat_key [hp_stat 45, attack_stat 49]
          \<and> map (\<lambda>kv. Inr (snd kv)) d = map stat_value [hp_stat 45, attack_stat 49])"
proof -
  have a: "well_formed bulbasaur_record"
    by (simp add: well_formed_def bulbasaur_record_def entity_record_def wf_stat_def
        hp_stat_def attack_stat_def stat_key_def stat_value_def)
  have b: "getitem bulbasaur_record ''stats'' = Inr (JList [hp_stat 45, attack_stat 49])"
    by (simp add: bulbasaur_record_def entity_record_def)
  have c: "distinct (map stat_key [hp_stat 45, attack_stat 49])"
    by (simp add: hp_stat_def attack_stat_def stat_key_def)
  from stats_series_entry_per_stat[OF a b c, of "[]"] a b c show ?thesis by blast
qed

text \<open>
  Without distinct names the count fails: the well-formed record with two statistics
  both named hp yields a view with the single entry hp \<mapsto> 49.
\<close>

theorem stats_series_entry_per_stat_counterexample:
  "well_formed twice_hp_record
   \<and> getitem twice_hp_record ''stats'' = Inr (JList [hp_stat 45, hp_stat 49])
   \<and> from_dict twice_hp_record = Inr twice_hp
   \<and> fst (stats_series twice_hp []) = Inr (Series [(JStr ''hp'', JInt 49)])
   \<and> length [(JStr ''hp'', JInt 49)] < length [hp_stat 45, hp_stat 49]"
  by (simp add: well_formed_def twice_hp_record_def twice_hp_def entity_record_def wf_stat_def
      hp_stat_def stat_key_def stat_value_def from_dict_def stats_series_def pd_Series_def
      key_eq_def)

text \<open>
  C3 (amended). For every input mapping that lacks any of the keys name,
  base_experience, sprites.front_default, sprites.back_default or stats, construction
  fails and returns no instance; when the sprites entry is absent or is itself a
  mapping, the failure is a missing-field error (\<^verbatim>\<open>KeyError\<close>) naming one of the
  keys read at construction. In particular a record without stats never yields an
  instance with an empty statistics view.
\<close>

theorem from_dict_missing_key:
  assumes "lacks_key payload"
  shows "(\<exists>e. from_dict payload = Inl e)
     \<and> (sprites_mapping_or_absent payload \<longrightarrow>
          (\<exists>k \<in> set [''name'', ''base_experience'', ''sprites'', ''front_default'',
                      ''back_default'', ''stats''].
             from_dict payload = Inl (KeyError (JStr k))))"
proof -
  from assms obtain kvs where p: "payload = JObj kvs"
    by (cases payload) (auto simp: lacks_key_def)
  show ?thesis
  proof (cases "map_of kvs ''name''")
    case None
    then show ?thesis using p by (simp add: from_dict_def)
  next
    case n: (Some n)
    show ?thesis
    proof (cases "map_of kvs ''base_experience''")
      case None
      then show ?thesis using p n by (simp add: from_dict_def)
    next
      case be: (Some be)
      show ?thesis
      proof (cases "map_of kvs ''sprites''")
        case None
        then show ?thesis using p n be by (simp add: from_dict_def)
      next
        case s: (Some s)
        show ?thesis
        proof (cases "\<exists>sp. s = JObj sp")
          case False
          then have "getitem s ''front_default'' = Inl TypeError" by (cases s) auto
          then show ?thesis using p n be s False
            by (auto simp: from_dict_def sprites_mapping_or_absent_def split: json.splits)
        next
          case True
          then obtain sp where sp: "s = JObj sp" by blast
          show ?thesis
          proof (cases "map_of sp ''front_default''")
            case None
            then show ?thesis using p n be s sp by (simp add: from_dict_def)
          next
            case fd: (Some fd)
            show ?thesis
            proof (cases "map_of sp ''back_default''")
              case None
              then show ?thesis using p n be s sp fd by (simp add: from_dict_def)
            next
              case bd: (Some bd)
              with assms p n be s sp fd have "map_of kvs ''stats'' = None"
                by (simp add: lacks_key_def)
              then show ?thesis using p n be s sp fd bd by (simp add: from_dict_def)
            qed
          qed
        qed
      qed
    qed
  qed
qed

theorem from_dict_missing_key_witness:
  "lacks_key no_stats_record \<and> sprites_mapping_or_absent no_stats_record
   \<and> from_dict no_stats_record = Inl (KeyError (JStr ''stats''))
   \<and> (\<exists>e. from_dict no_stats_record = Inl e)
   \<and> (\<exists>k \<in> set [''name'', ''base_experience'', ''sprites'', ''front_default'',
                      ''back_default'', ''stats''].
             from_dict no_stats_record = Inl (KeyError (JStr k)))"
proof -
  have a: "lacks_key no_stats_record" by (simp add: lacks_key_def no_stats_record_def)
  have b: "sprites_mapping_or_absent no_stats_record"
    by (simp add: sprites_mapping_or_absent_def no_stats_record_def)
  have c: "from_dict no_stats_record = Inl (KeyError (JStr ''stats''))"
    by (simp add: from_dict_def no_stats_record_def)
  from from_dict_missing_key[OF a] a b c show ?thesis by blast
qed

text \<open>
  When the sprites entry is present but is not a mapping, the failure is a
  \<^verbatim>\<open>TypeError\<close> raised by the subscription of that entry, before stats is read:
  a mapping without stats whose sprites entry is null does not fail with a
  missing-field error.
\<close>

theorem from_dict_missing_key_counterexample:
  "lacks_key null_sprites_entry_record
   \<and> from_dict null_sprites_entry_record = Inl TypeError
   \<and> from_dict null_sprites_entry_record \<noteq> Inl (KeyError (JStr ''stats''))"
  by (simp add: lacks_key_def null_sprites_entry_record_def from_dict_def)

subsection \<open>The image accessors\<close>

text \<open>
  C2 (amended). For every instance whose stored front sprite URL is null, the front
  image accessor hands the null value to the transport's GET as it would any URL: the
  call is logged, the transport's error is raised unchanged when it raises, and the
  body of the response is returned as a buffer when it answers. There is no separate
  result for a missing image. The same holds for the back image accessor and a null
  back sprite URL.
\<close>

theorem image_null_url:
  "(sprite_front_default self = JNull \<longrightarrow>
      front_image environ self log =
        ((case requests_get environ log JNull of
            Inl e \<Rightarrow> Inl e | Inr r \<Rightarrow> Inr (BytesIO (content r))),
         self, log @ [JNull]))
   \<and> (sprite_back_default self = JNull \<longrightarrow>
      back_image environ self log =
        ((case requests_get environ log JNull of
            Inl e \<Rightarrow> Inl e | Inr r \<Rightarrow> Inr (BytesIO (content r))),
         self, log @ [JNull]))"
  by (simp add: front_image_def back_image_def split: sum.splits)

text \<open>
  With a transport that rejects a value that is not a URL, as \<^verbatim>\<open>requests\<close> does, both
  accessors of an instance with null sprites raise the transport's error.
\<close>

theorem image_null_url_witness:
  "sprite_front_default no_sprites = JNull \<and> sprite_back_default no_sprites = JNull
   \<and> requests_get mock [] JNull = Inl (RequestException ''MissingSchema'')
   \<and> front_image mock no_sprites [] =
        (Inl (RequestException ''MissingSchema''), no_sprites, [JNull])
   \<and> back_image mock no_sprites [] =
        (Inl (RequestException ''MissingSchema''), no_sprites, [JNull])"
  using image_null_url[of no_sprites mock "[]"]
  by (simp add: no_sprites_def mock_def mock_get_def)

text \<open>
  The claim as first stated, that a null sprite URL yields a result for a missing
  image with no GET and no transport error, fails on the instance with null sprites:
  each accessor calls the transport with the null value and raises its error.
\<close>

theorem image_null_url_counterexample:
  "sprite_front_default no_sprites = JNull
   \<and> front_image mock no_sprites [] =
        (Inl (RequestException ''MissingSchema''), no_sprites, [JNull])
   \<and> sprite_back_default no_sprites = JNull
   \<and> back_image mock no_sprites [] =
        (Inl (RequestException ''MissingSchema''), no_sprites, [JNull])"
  by (simp add: front_image_def back_image_def no_sprites_def mock_def mock_get_def)

text \<open>
  C10. Construction succeeds on any mapping in which the five keys are present, under
  a sprites mapping for the two sprite keys, whatever the sprite entries hold; a null
  entry is stored as it is. Construction takes no transport and makes no request, so a
  null sprite URL causes no failure there: the failure comes when the image accessor
  for that sprite is called and the transport raises on the null value.
\<close>

theorem from_dict_defers_null_sprite:
  assumes "map_of kvs ''name'' = Some n" and "map_of kvs ''base_experience'' = Some be"
    and "map_of kvs ''sprites'' = Some (JObj sp)"
    and "map_of sp ''front_default'' = Some fd" and "map_of sp ''back_default'' = Some bd"
    and "map_of kvs ''stats'' = Some st"
  shows "\<exists>p. from_dict (JObj kvs) = Inr p
           \<and> sprite_front_default p = fd \<and> sprite_back_default p = bd
           \<and> (fd = JNull \<longrightarrow> (\<forall>e. requests_get environ log JNull = Inl e \<longrightarrow>
                  fst (front_image environ p log) = Inl e))
           \<and> (bd = JNull \<longrightarrow> (\<forall>e. requests_get environ log JNull = Inl e \<longrightarrow>
                  fst (back_image environ p log) = Inl e))"
  using from_dict_present[OF assms]
  by (simp add: front_image_def back_image_def)

theorem from_dict_defers_null_sprite_witness:
  "from_dict no_sprites_record = Inr no_sprites
   \<and> sprite_front_default no_sprites = JNull \<and> sprite_back_default no_sprites = JNull
   \<and> requests_get mock [] JNull = Inl (RequestException ''MissingSchema'')
   \<and> fst (front_image mock no_sprites []) = Inl (RequestException ''MissingSchema'')
   \<and> fst (back_image mock no_sprites []) = Inl (RequestException ''MissingSchema'')"
proof -
  let ?kvs = "[(''name'', JStr ''bulbasaur''), (''base_experience'', JInt 64),
      (''sprites'', JObj [(''front_default'', JNull), (''back_default'', JNull)]),
      (''stats'', JList [hp_stat 45, attack_stat 49])]"
  let ?sp = "[(''front_default'', JNull), (''back_default'', JNull)]"
  have r: "no_sprites_record = JObj ?kvs"
    by (simp add: no_sprites_record_def entity_record_def)
  have a: "map_of ?kvs ''name'' = Some (JStr ''bulbasaur'')" by simp
  have b: "map_of ?kvs ''base_experience'' = Some (JInt 64)" by simp
  have c: "map_of ?kvs ''sprites'' = Some (JObj ?sp)" by simp
  have d: "map_of ?sp ''front_default'' = Some JNull" by simp
  have e: "map_of ?sp ''back_default'' = Some JNull" by simp
  have f: "map_of ?kvs ''stats'' = Some (JList [hp_stat 45, attack_stat 49])" by simp
  have g: "requests_get mock [] JNull = Inl (RequestException ''MissingSchema'')"
    by (simp add: mock_def mock_get_def)
  have h: "from_dict no_sprites_record = Inr no_sprites"
    by (simp add: r from_dict_def no_sprites_def)
  from from_dict_defers_null_sprite[OF a b c d e f, of mock "[]"] g h r
  show ?thesis by (auto simp: no_sprites_def)
qed

subsection \<open>Frame and purity\<close>

lemma front_image_frame: "fst (snd (front_image environ self log)) = self"
  by (simp add: front_image_def split: sum.splits)

lemma back_image_frame: "fst (snd (back_image environ self log)) = self"
  by (simp add: back_image_def split: sum.splits)

lemma stats_series_frame: "snd (stats_series self log) = (self, log)"
  by (simp add: stats_series_def split: sum.splits)

lemma access_frame: "fst (access environ a (self, log)) = self"
  by (cases a) (simp_all add: front_image_frame back_image_frame stats_series_frame)

lemma access_all_frame: "fst (access_all environ accs (self, log)) = self"
proof (induction accs arbitrary: log)
  case Nil
  show ?case by simp
next
  case (Cons a accs)
  obtain self' log' where w: "access environ a (self, log) = (self', log')"
    by (cases "access environ a (self, log)")
  with access_frame[of environ a self log] have "self' = self" by simp
  with w Cons.IH[of log'] show ?case by simp
qed

text \<open>
  C8. No accessor modifies the instance: each of the three leaves it as it found it,
  and after any sequence of accessor calls, whatever they return or raise, the five
  stored fields have the values they had before.
\<close>

theorem accessors_keep_fields:
  "fst (snd (front_image environ self log)) = self
   \<and> fst (snd (back_image environ self log)) = self
   \<and> fst (snd (stats_series self log)) = self
   \<and> fst (access_all environ accs (self, log)) = self
   \<and> name (fst (access_all environ accs (self, log))) = name self
   \<and> base_experience (fst (access_all environ accs (self, log))) = base_experience self
   \<and> sprite_front_default (fst (access_all environ accs (self, log)))
        = sprite_front_default self
   \<and> sprite_back_default (fst (access_all environ accs (self, log)))
        = sprite_back_default self
   \<and> stats (fst (access_all environ accs (self, log))) = stats self"
  by (simp add: front_image_frame back_image_frame stats_series_frame access_all_frame)

lemma stats_series_result:
  "fst (stats_series self log) =
     (case py_iter (stats self) of Inl e \<Rightarrow> Inl e
      | Inr items \<Rightarrow>
         (case stats_comprehension items [] of Inl e \<Rightarrow> Inl e
          | Inr stats_dict \<Rightarrow> Inr (pd_Series stats_dict)))"
  by (simp add: stats_series_def split: sum.splits)

text \<open>
  C7. The statistics accessor leaves the instance and the request log unchanged (it
  performs no request), a second call on the instance it leaves returns the same
  result, as does a call after any other accessor calls, and the result depends on
  nothing but the stored stats: two instances with equal stats give equal results
  under any log.
\<close>

theorem stats_series_idempotent_pure:
  "snd (stats_series self log) = (self, log)
   \<and> (\<forall>r self' log'. stats_series self log = (r, self', log') \<longrightarrow>
          stats_series self' log' = (r, self', log'))
   \<and> (\<forall>accs log'. fst (stats_series (fst (access_all environ accs (self, log))) log')
          = fst (stats_series self log))
   \<and> (\<forall>other log'. stats other = stats self \<longrightarrow>
          fst (stats_series other log') = fst (stats_series self log))"
proof -
  have 1: "snd (stats_series self log) = (self, log)" by (rule stats_series_frame)
  have 2: "\<forall>r self' log'. stats_series self log = (r, self', log') \<longrightarrow>
          stats_series self' log' = (r, self', log')"
    using 1 by auto
  have 4: "\<forall>other log'. stats other = stats self \<longrightarrow>
          fst (stats_series other log') = fst (stats_series self log)"
    by (simp add: stats_series_result)
  have 3: "\<forall>accs log'. fst (stats_series (fst (access_all environ accs (self, log))) log')
          = fst (stats_series self log)"
    by (simp add: access_all_frame stats_series_result)
  from 1 2 3 4 show ?thesis by blast
qed

theorem stats_series_idempotent_pure_witness:
  "stats no_sprites = stats bulbasaur
   \<and> stats_series bulbasaur [] =
        (Inr (Series [(JStr ''hp'', JInt 45), (JStr ''attack'', JInt 49)]), bulbasaur, [])
   \<and> stats_series bulbasaur [] = stats_series (fst (snd (stats_series bulbasaur [])))
         (snd (snd (stats_series bulbasaur [])))
   \<and> fst (stats_series no_sprites [JNull]) = fst (stats_series bulbasaur [])"
proof -
  have a: "stats no_sprites = stats bulbasaur" by (simp add: no_sprites_def bulbasaur_def)
  have b: "stats_series bulbasaur [] =
      (Inr (Series [(JStr ''hp'', JInt 45), (JStr ''attack'', JInt 49)]), bulbasaur, [])"
    by (simp add: stats_series_def bulbasaur_def hp_stat_def attack_stat_def stat_key_def
        stat_value_def pd_Series_def key_eq_def)
  from stats_series_idempotent_pure[of bulbasaur "[]" mock] a b show ?thesis by auto
qed

subsection \<open>The loaders\<close>

text \<open>
  C5. For every name, loading an entity makes exactly one request, for the URL made of
  the versioned base, the path pokemon, the name and a closing slash; when the
  transport raises, that error is the outcome; otherwise the outcome is whatever the
  decoder gives on the text of the response: its error when it raises, the decoded
  value as it is when it returns, with no check of its shape.
\<close>

theorem load_pokemon_fetch_decode:
  "snd (load_pokemon environ pokemon_name log) =
      log @ [JStr (''https://pokeapi.co/api/v2/pokemon/'' @ pokemon_name @ ''/'')]
   \<and> (\<forall>e. requests_get environ log
            (JStr (''https://pokeapi.co/api/v2/pokemon/'' @ pokemon_name @ ''/'')) = Inl e
        \<longrightarrow> fst (load_pokemon environ pokemon_name log) = Inl e)
   \<and> (\<forall>resp. requests_get environ log
            (JStr (''https://pokeapi.co/api/v2/pokemon/'' @ pokemon_name @ ''/'')) = Inr resp
        \<longrightarrow> fst (load_pokemon environ pokemon_name log)
              = json_loads environ (response_text resp))"
  by (simp add: load_pokemon_def Let_def split: sum.splits)

theorem load_pokemon_fetch_decode_witness:
  "load_pokemon mock ''bulbasaur'' [] =
      (Inr bulbasaur_record, [JStr ''https://pokeapi.co/api/v2/pokemon/bulbasaur/''])
   \<and> load_pokemon mock ''missingno'' [] =
      (Inl JSONDecodeError, [JStr ''https://pokeapi.co/api/v2/pokemon/missingno/''])
   \<and> load_pokemon mock ''mew'' [] =
      (Inl (RequestException ''ConnectionError''),
       [JStr ''https://pokeapi.co/api/v2/pokemon/mew/''])"
proof -
  have a: "requests_get mock [] (JStr (''https://pokeapi.co/api/v2/pokemon/'' @ ''bulbasaur'' @ ''/''))
      = Inr \<lparr>content = ''bulbasaur'', response_text = ''bulbasaur''\<rparr>"
    by (simp add: mock_def mock_get_def)
  have b: "requests_get mock [] (JStr (''https://pokeapi.co/api/v2/pokemon/'' @ ''missingno'' @ ''/''))
      = Inr \<lparr>content = ''Not Found'', response_text = ''Not Found''\<rparr>"
    by (simp add: mock_def mock_get_def)
  have c: "requests_get mock [] (JStr (''https://pokeapi.co/api/v2/pokemon/'' @ ''mew'' @ ''/''))
      = Inl (RequestException ''ConnectionError'')"
    by (simp add: mock_def mock_get_def)
  have d: "json_loads mock ''bulbasaur'' = Inr bulbasaur_record"
    "json_loads mock ''Not Found'' = Inl JSONDecodeError"
    by (simp_all add: mock_def mock_loads_def)
  from load_pokemon_fetch_decode[of mock "''bulbasaur''" "[]"] a d
  have 1: "load_pokemon mock ''bulbasaur'' [] =
      (Inr bulbasaur_record, [JStr ''https://pokeapi.co/api/v2/pokemon/bulbasaur/''])"
    by (simp add: prod_eq_iff)
  from load_pokemon_fetch_decode[of mock "''missingno''" "[]"] b d
  have 2: "load_pokemon mock ''missingno'' [] =
      (Inl JSONDecodeError, [JStr ''https://pokeapi.co/api/v2/pokemon/missingno/''])"
    by (simp add: prod_eq_iff)
  from load_pokemon_fetch_decode[of mock "''mew''" "[]"] c
  have 3: "load_pokemon mock ''mew'' [] =
      (Inl (RequestException ''ConnectionError''),
       [JStr ''https://pokeapi.co/api/v2/pokemon/mew/''])"
    by (simp add: prod_eq_iff)
  from 1 2 3 show ?thesis by blast
qed

lemma names_comprehension_map:
  "map (\<lambda>pokemon. getitem pokemon ''name'') items = map Inr names
   \<Longrightarrow> names_comprehension items = Inr names"
proof (induction items arbitrary: names)
  case Nil
  then show ?case by simp
next
  case (Cons pokemon items)
  then obtain n ns where "names = n # ns" by (cases names) auto
  with Cons show ?case by simp
qed

text \<open>
  C6. Loading all names makes exactly one request, for the listing URL with limit
  100000 and offset 0; when the response decodes to a mapping whose results entry is a
  sequence of entries that each have a name, the outcome is the list of these names,
  one per entry and in the order of the entries.
\<close>

theorem load_all_pokemons_names:
  "snd (load_all_pokemons environ log) =
      log @ [JStr ''https://pokeapi.co/api/v2/pokemon?limit=100000&offset=0'']
   \<and> (\<forall>resp resp_to_json entries names.
        requests_get environ log
          (JStr ''https://pokeapi.co/api/v2/pokemon?limit=100000&offset=0'') = Inr resp
        \<and> json_loads environ (response_text resp) = Inr resp_to_json
        \<and> getitem resp_to_json ''results'' = Inr (JList entries)
        \<and> map (\<lambda>pokemon. getitem pokemon ''name'') entries = map Inr names
        \<longrightarrow> fst (load_all_pokemons environ log) = Inr names)"
proof -
  have 1: "snd (load_all_pokemons environ log) =
      log @ [JStr ''https://pokeapi.co/api/v2/pokemon?limit=100000&offset=0'']"
    by (simp add: load_all_pokemons_def Let_def split: sum.splits)
  have 2: "fst (load_all_pokemons environ log) = Inr names"
    if "requests_get environ log
          (JStr ''https://pokeapi.co/api/v2/pokemon?limit=100000&offset=0'') = Inr resp"
      and "json_loads environ (response_text resp) = Inr resp_to_json"
      and "getitem resp_to_json ''results'' = Inr (JList entries)"
      and "map (\<lambda>pokemon. getitem pokemon ''name'') entries = map Inr names"
    for resp resp_to_json entries names
    using that names_comprehension_map[of entries names]
    by (simp add: load_all_pokemons_def Let_def)
  from 1 2 show ?thesis by blast
qed

theorem load_all_pokemons_names_witness:
  "requests_get mock [] (JStr ''https://pokeapi.co/api/v2/pokemon?limit=100000&offset=0'')
      = Inr \<lparr>content = ''listing'', response_text = ''listing''\<rparr>
   \<and> json_loads mock ''listing'' = Inr listing
   \<and> load_all_pokemons mock [] =
      (Inr [JStr ''bulbasaur'', JStr ''ivysaur''],
       [JStr ''https://pokeapi.co/api/v2/pokemon?limit=100000&offset=0''])"
proof -
  let ?es = "[JObj [(''name'', JStr ''bulbasaur''), (''url'', JStr ''u1'')],
              JObj [(''name'', JStr ''ivysaur''), (''url'', JStr ''u2'')]]"
  have a: "requests_get mock [] (JStr ''https://pokeapi.co/api/v2/pokemon?limit=100000&offset=0'')
      = Inr \<lparr>content = ''listing'', response_text = ''listing''\<rparr>"
    by (simp add: mock_def mock_get_def)
  have b: "json_loads mock (response_text \<lparr>content = ''listing'', response_text = ''listing''\<rparr>)
      = Inr listing"
    by (simp add: mock_def mock_loads_def)
  have c: "getitem listing ''results'' = Inr (JList ?es)" by (simp add: listing_def)
  have d: "map (\<lambda>pokemon. getitem pokemon ''name'') ?es
      = map Inr [JStr ''bulbasaur'', JStr ''ivysaur'']" by simp
  from load_all_pokemons_names[of mock "[]"] a b c d
  have "fst (load_all_pokemons mock []) = Inr [JStr ''bulbasaur'', JStr ''ivysaur'']"
    by blast
  moreover from load_all_pokemons_names[of mock "[]"]
  have "snd (load_all_pokemons mock []) =
      [JStr ''https://pokeapi.co/api/v2/pokemon?limit=100000&offset=0'']" by simp
  ultimately show ?thesis using a b by (simp add: prod_eq_iff)
qed

end
